theory Spec2Isabelle
  imports Complex_Main
begin

section \<open>The consciousness-loop simulation of src/app/src/App.js\<close>

text \<open>
  The component \<open>Simulation\<close> holds two pieces of state: \<open>simData\<close> (drives, goal queue,
  memory graph, focus) and \<open>log\<close>. \<open>runSimulationCycle\<close> replaces \<open>simData\<close> by the value
  its updater computes on a deep copy, and calls \<open>logToSim\<close> for every message on the way.
  Numbers of the source are small integers and are modelled as \<open>int\<close>; strings are
  \<open>string\<close> (lists of 8-bit characters); the object \<open>memory.nodes\<close> is a map from
  concept names to nodes, read through its own properties only (the names that every
  JavaScript object inherits, such as \<open>constructor\<close>, are not modelled as keys).
\<close>

subsection \<open>Data\<close>

record drive_state =
  curiosity :: int
  boredom :: int
  pain :: int

record goal_queue =
  active :: "string list"
  completed :: "string list"

record concept_node =
  x :: int
  y :: int
  understood :: bool

record link =
  source :: string
  target :: string

record memory_graph =
  nodes :: "string \<rightharpoonup> concept_node"
  links :: "link list"

text \<open>\<open>focus\<close> is a string in every state the page builds; \<open>None\<close> stands for the
  JavaScript value \<open>undefined\<close>, which an out-of-range array read would give.\<close>

record sim_data =
  state :: drive_state
  goals :: goal_queue
  memory :: memory_graph
  focus :: "string option"

datatype log_type = info | success | warn | critical

record log_entry =
  type :: log_type
  message :: string

datatype js_error = TypeError

subsection \<open>Strings\<close>

definition apostrophe :: char where
  "apostrophe = CHR 0x27"

text \<open>The characters the regular-expression dot does not match (line feed and carriage
  return; the two other line terminators of JavaScript lie outside 8-bit characters).\<close>

definition line_terminator :: "char \<Rightarrow> bool" where
  "line_terminator ch = (ch = CHR 0x0A \<or> ch = CHR 0x0D)"

text \<open>The lazy group \<open>(.*?)\<close> followed by an apostrophe: the characters up to the next
  apostrophe, provided no line terminator comes first.\<close>

fun lazy_group :: "string \<Rightarrow> string option" where
  "lazy_group [] = None"
| "lazy_group (ch # cs) =
     (if ch = apostrophe then Some []
      else if line_terminator ch then None
      else map_option ((#) ch) (lazy_group cs))"

text \<open>\<open>goal.match(/'(.*?)'/)\<close>, first capture group of the leftmost match; \<open>None\<close> when the
  match is \<open>null\<close>.\<close>

fun match_quoted :: "string \<Rightarrow> string option" where
  "match_quoted [] = None"
| "match_quoted (ch # cs) =
     (if ch = apostrophe
      then (case lazy_group cs of Some c \<Rightarrow> Some c | None \<Rightarrow> match_quoted cs)
      else match_quoted cs)"

fun starts_with :: "string \<Rightarrow> string \<Rightarrow> bool" where
  "starts_with s [] = True"
| "starts_with [] (p # ps) = False"
| "starts_with (ch # cs) (p # ps) = (ch = p \<and> starts_with cs ps)"

text \<open>\<open>s.includes(sub)\<close>.\<close>

fun includes_str :: "string \<Rightarrow> string \<Rightarrow> bool" where
  "includes_str [] sub = (sub = [])"
| "includes_str (ch # cs) sub = (starts_with (ch # cs) sub \<or> includes_str cs sub)"

text \<open>The template literals that build goal strings.\<close>

definition deepen_goal :: "string \<Rightarrow> string" where
  "deepen_goal c = ''Deepen understanding of the concept: '' @ [apostrophe] @ c @ [apostrophe]"

definition break_down_goal :: "string \<Rightarrow> string" where
  "break_down_goal c = ''Break down the concept: '' @ [apostrophe] @ c @ [apostrophe]"

definition expand_goal :: "string \<Rightarrow> string" where
  "expand_goal c = ''Expand knowledge from '' @ [apostrophe] @ c @ [apostrophe]"

text \<open>A template literal prints \<open>undefined\<close> for the value \<open>undefined\<close>.\<close>

definition show_focus :: "string option \<Rightarrow> string" where
  "show_focus f = (case f of None \<Rightarrow> ''undefined'' | Some c \<Rightarrow> c)"

subsection \<open>The initial snapshot\<close>

definition initialSimState :: sim_data where
  "initialSimState =
     \<lparr> state = \<lparr> curiosity = 65, boredom = 0, pain = 0 \<rparr>,
       goals = \<lparr> active = [deepen_goal ''belief system''], completed = [] \<rparr>,
       memory =
         \<lparr> nodes =
             [ ''belief system'' \<mapsto> \<lparr> x = 50, y = 20, understood = False \<rparr>,
               ''knowledge'' \<mapsto> \<lparr> x = 20, y = 50, understood = False \<rparr>,
               ''delusions'' \<mapsto> \<lparr> x = 80, y = 50, understood = False \<rparr>,
               ''creativity'' \<mapsto> \<lparr> x = 20, y = 80, understood = False \<rparr> ],
           links =
             [ \<lparr> source = ''knowledge'', target = ''belief system'' \<rparr>,
               \<lparr> source = ''belief system'', target = ''delusions'' \<rparr>,
               \<lparr> source = ''knowledge'', target = ''creativity'' \<rparr> ] \<rparr>,
       focus = Some ''belief system'' \<rparr>"

subsection \<open>The event log\<close>

text \<open>\<open>logToSim\<close>: the last 20 entries of the previous log, then the new entry.\<close>

definition logToSim :: "log_entry list \<Rightarrow> string \<Rightarrow> log_type \<Rightarrow> log_entry list" where
  "logToSim prevLog msg ty =
     drop (length prevLog - 20) prevLog @ [\<lparr> type = ty, message = msg \<rparr>]"

definition append_entries :: "log_entry list \<Rightarrow> log_entry list \<Rightarrow> log_entry list" where
  "append_entries lg es = foldl (\<lambda>l e. logToSim l (message e) (type e)) lg es"

definition initial_log :: "log_entry list" where
  "initial_log = [\<lparr> type = info, message = ''Simulation not started. Press \"Run Cycle\".'' \<rparr>]"

subsection \<open>One cycle\<close>

text \<open>
  The updater of \<open>runSimulationCycle\<close>, on the deep copy \<open>newData\<close> of \<open>currentData\<close>.
  \<open>rnd\<close> is the value of \<open>Math.random()\<close>: a cycle calls it at most once, for
  \<open>shouldFail\<close> when there is an active goal and for the neighbour index when the mind
  wanders. The product with the number of neighbours is taken exactly. An uncaught
  \<open>TypeError\<close> (reading a property of \<open>null\<close> or \<open>undefined\<close>) is the result
  \<open>Inl TypeError\<close>; otherwise the result is the returned \<open>newData\<close> with the entries
  passed to \<open>logToSim\<close>, in order.
\<close>

definition entry :: "log_type \<Rightarrow> string \<Rightarrow> log_entry" where
  "entry ty msg = \<lparr> type = ty, message = msg \<rparr>"

definition focus_message :: "string \<Rightarrow> string" where
  "focus_message c = ''Goal-directed focus: <strong>'' @ c @ ''</strong>''"

definition pain_message :: "string \<Rightarrow> string" where
  "pain_message c =
     ''Pain threshold reached for '' @ [apostrophe] @ c @ [apostrophe] @ ''. This is too difficult.''"

definition understood_message :: "string \<Rightarrow> string" where
  "understood_message c =
     ''Successfully understood '' @ [apostrophe] @ c @ [apostrophe] @ ''. Storing memory.''"

definition broke_down_message :: "string \<Rightarrow> string" where
  "broke_down_message c = ''Successfully broke down '' @ [apostrophe] @ c @ [apostrophe] @ ''.''"

definition sub_concepts_message :: "string \<Rightarrow> string" where
  "sub_concepts_message c = ''New sub-concepts discovered: '' @ (c @ ''-A'') @ '', '' @ (c @ ''-B'')"

definition malformed_message :: string where
  "malformed_message = ''LLM response malformed. Rejecting thought.''"

definition strategy_message :: string where
  "strategy_message = ''New Strategy: Break down the concept.''"

definition idle_message :: string where
  "idle_message = ''Idle mode. No active goals.''"

definition boredom_message :: string where
  "boredom_message = ''Boredom threshold reached. Seeking novelty.''"

definition wander_message :: "string option \<Rightarrow> string" where
  "wander_message f = ''Mind wanders to: <strong>'' @ show_focus f @ ''</strong>''"

text \<open>The node created for the sub-concept at index \<open>i\<close> of the reversed list.\<close>

definition sub_node :: "concept_node \<Rightarrow> int \<Rightarrow> concept_node" where
  "sub_node parentNode i =
     \<lparr> x = x parentNode + (i * 15 - 10), y = y parentNode + 25, understood = False \<rparr>"

text \<open>The neighbours of the focus: \<open>links.filter(...).map(...)\<close>.\<close>

definition neighbors_of :: "link list \<Rightarrow> string option \<Rightarrow> string list" where
  "neighbors_of ls f =
     map (\<lambda>l. if Some (source l) = f then target l else source l)
       (filter (\<lambda>l. Some (source l) = f \<or> Some (target l) = f) ls)"

text \<open>\<open>neighbors[Math.floor(Math.random() * neighbors.length)]\<close>.\<close>

definition pick_neighbor :: "string list \<Rightarrow> rat \<Rightarrow> string option" where
  "pick_neighbor ns rnd =
     (let i = \<lfloor>rnd * of_nat (length ns)\<rfloor>
      in if 0 \<le> i \<and> i < int (length ns) then Some (ns ! nat i) else None)"

definition runSimulationCycle :: "sim_data \<Rightarrow> rat \<Rightarrow> js_error + (sim_data \<times> log_entry list)" where
  "runSimulationCycle currentData rnd =
     (case active (goals currentData) of
        goal # rest \<Rightarrow>
          (case match_quoted goal of
             None \<Rightarrow> Inl TypeError
           | Some c \<Rightarrow>
               let newData = currentData\<lparr> focus := Some c \<rparr>;
                   log1 = [entry info (focus_message c)];
                   p = pain (state newData);
                   shouldFail = (rnd < 1 / 4 \<or> p > 50)
               in
               if includes_str goal ''Deepen understanding'' then
                 (if shouldFail then
                    (let p' = min 100 (p + 25);
                         log2 = log1 @ [entry warn malformed_message]
                     in if p' \<ge> 80 then
                          Inr (newData\<lparr> goals := (goals newData)\<lparr> active := break_down_goal c # rest \<rparr>,
                                        state := (state newData)\<lparr> pain := 0 \<rparr> \<rparr>,
                               log2 @ [entry critical (pain_message c),
                                       entry info strategy_message])
                        else
                          Inr (newData\<lparr> state := (state newData)\<lparr> pain := p' \<rparr> \<rparr>, log2))
                  else
                    (case nodes (memory newData) c of
                       None \<Rightarrow> Inl TypeError
                     | Some n \<Rightarrow>
                         Inr (newData\<lparr>
                                memory := (memory newData)\<lparr>
                                  nodes := (nodes (memory newData))(c \<mapsto> n\<lparr> understood := True \<rparr>) \<rparr>,
                                goals := \<lparr> active = rest,
                                           completed = completed (goals newData) @ [goal] \<rparr>,
                                state := (state newData)\<lparr> pain := max 0 (p - 20) \<rparr> \<rparr>,
                              log1 @ [entry success (understood_message c)])))
               else if includes_str goal ''Break down'' then
                 (case nodes (memory newData) c of
                    None \<Rightarrow> Inl TypeError
                  | Some parentNode \<Rightarrow>
                      Inr (newData\<lparr>
                             memory := \<lparr>
                               nodes = (nodes (memory newData))
                                         (c @ ''-B'' \<mapsto> sub_node parentNode 0,
                                          c @ ''-A'' \<mapsto> sub_node parentNode 1),
                               links = links (memory newData) @
                                         [\<lparr> source = c, target = c @ ''-B'' \<rparr>,
                                          \<lparr> source = c, target = c @ ''-A'' \<rparr>] \<rparr>,
                             goals := (goals newData)\<lparr>
                               active := deepen_goal (c @ ''-A'') # deepen_goal (c @ ''-B'') # rest \<rparr> \<rparr>,
                           log1 @ [entry success (broke_down_message c),
                                   entry info (sub_concepts_message c)]))
               else Inr (newData, log1))
      | [] \<Rightarrow>
          (let log1 = [entry info idle_message];
               b = min 100 (boredom (state currentData) + 15)
           in if b \<ge> 75 then
                Inr (currentData\<lparr>
                       goals := (goals currentData)\<lparr>
                         active := active (goals currentData) @ [expand_goal (show_focus (focus currentData))] \<rparr>,
                       state := (state currentData)\<lparr> boredom := 0 \<rparr> \<rparr>,
                     log1 @ [entry critical boredom_message])
              else
                (let newData = currentData\<lparr> state := (state currentData)\<lparr> boredom := b \<rparr> \<rparr>;
                     neighbors = neighbors_of (links (memory newData)) (focus newData)
                 in if length neighbors > 0 then
                      (let f = pick_neighbor neighbors rnd
                       in Inr (newData\<lparr> focus := f \<rparr>, log1 @ [entry info (wander_message f)]))
                    else Inr (newData, log1))))"


text \<open>Consecutive cycles, one random value each; the state after the last one.\<close>

fun run_cycles :: "sim_data \<Rightarrow> rat list \<Rightarrow> js_error + sim_data" where
  "run_cycles s [] = Inr s"
| "run_cycles s (rnd # rnds) =
     (case runSimulationCycle s rnd of
        Inl e \<Rightarrow> Inl e
      | Inr (s', es) \<Rightarrow> run_cycles s' rnds)"

text \<open>The states the page can be in: the initial snapshot (also what \<open>resetSimulation\<close>
  installs) and every state a completed cycle returns from one of them.\<close>

inductive reachable :: "sim_data \<Rightarrow> bool" where
  initial: "reachable initialSimState"
| cycle: "reachable s \<Longrightarrow> runSimulationCycle s rnd = Inr (s', es) \<Longrightarrow> reachable s'"

text \<open>Consecutive cycles with what each one returned: the new state and its log entries.\<close>

fun trace_cycles :: "sim_data \<Rightarrow> rat list \<Rightarrow> js_error + (sim_data \<times> log_entry list) list" where
  "trace_cycles s [] = Inr []"
| "trace_cycles s (rnd # rnds) =
     (case runSimulationCycle s rnd of
        Inl e \<Rightarrow> Inl e
      | Inr (s', es) \<Rightarrow>
          (case trace_cycles s' rnds of
             Inl e \<Rightarrow> Inl e
           | Inr t \<Rightarrow> Inr ((s', es) # t)))"

subsection \<open>Predicates used in the statements\<close>

definition drives_ok :: "sim_data \<Rightarrow> bool" where
  "drives_ok s =
     (0 \<le> curiosity (state s) \<and> curiosity (state s) \<le> 100 \<and>
      0 \<le> boredom (state s) \<and> boredom (state s) \<le> 100 \<and>
      0 \<le> pain (state s) \<and> pain (state s) \<le> 100)"

text \<open>A name the goal templates embed and \<open>match_quoted\<close> gives back unchanged.\<close>

definition plain_name :: "string \<Rightarrow> bool" where
  "plain_name c = list_all (\<lambda>ch. ch \<noteq> apostrophe \<and> \<not> line_terminator ch) c"

text \<open>The region that the initial nodes lie in and that \<open>sub_node\<close> never leaves.\<close>

definition placed_ok :: "concept_node \<Rightarrow> bool" where
  "placed_ok n = (20 \<le> y n \<and> 200 \<le> 5 * x n + 2 * y n \<and> 5 * x n - y n \<le> 350)"

subsection \<open>States used as examples\<close>

text \<open>The initial snapshot once its goal has been replaced by the break-down goal (what
  four failed attempts leave, pain being back at 0).\<close>

definition escalated_state :: sim_data where
  "escalated_state =
     initialSimState\<lparr>
       goals := \<lparr> active = [break_down_goal ''belief system''], completed = [] \<rparr> \<rparr>"

text \<open>The same with the two sub-concept nodes already in the graph, the first one
  understood.\<close>

definition revisited_state :: sim_data where
  "revisited_state =
     escalated_state\<lparr>
       memory := (memory initialSimState)\<lparr>
         nodes := (nodes (memory initialSimState))
                    (''belief system-A'' \<mapsto> \<lparr> x = 55, y = 45, understood = True \<rparr>,
                     ''belief system-B'' \<mapsto> \<lparr> x = 40, y = 45, understood = False \<rparr>) \<rparr> \<rparr>"


text \<open>The goal that the boredom threshold pushes, at the head of the queue.\<close>

definition stalled_state :: sim_data where
  "stalled_state =
     initialSimState\<lparr>
       goals := \<lparr> active = [expand_goal ''belief system''],
                  completed = [deepen_goal ''belief system''] \<rparr> \<rparr>"



section \<open>Properties\<close>

subsection \<open>The event log\<close>

lemma logToSim_take_last:
  "logToSim (drop (length xs - 21) xs) (message e) (type e) =
   drop (length (xs @ [e]) - 21) (xs @ [e])"
proof -
  have "length xs - (length xs - 21 + 20) + (length xs - 21) = length xs - 20"
    by arith
  then show ?thesis
    by (simp add: logToSim_def)
qed

lemma append_entries_snoc:
  "append_entries lg (es @ [e]) = logToSim (append_entries lg es) (message e) (type e)"
  by (simp add: append_entries_def)

lemma append_entries_take_last:
  "length lg \<le> 21 \<Longrightarrow> append_entries lg es = drop (length (lg @ es) - 21) (lg @ es)"
proof (induction es rule: rev_induct)
  case Nil
  then show ?case by (simp add: append_entries_def)
next
  case (snoc e es)
  then show ?case
    using logToSim_take_last [of "lg @ es" e]
    by (simp add: append_entries_snoc)
qed

text \<open>
  Claim C9. Whatever entries are appended to a log of at most 21 entries (the page starts
  and resets with one), the log holds at most 21 entries afterwards: it is the last 21
  entries of the old log followed by the appended ones, in their order, so the oldest are
  the ones dropped and the entry appended last is the last element.
\<close>

theorem event_log_bounded:
  assumes "length lg \<le> 21"
  shows "length (append_entries lg es) \<le> 21
       \<and> append_entries lg es = drop (length (lg @ es) - 21) (lg @ es)
       \<and> (es \<noteq> [] \<longrightarrow> last (append_entries lg es) = last es)"
proof -
  have eq: "append_entries lg es = drop (length (lg @ es) - 21) (lg @ es)"
    using assms by (rule append_entries_take_last)
  have len: "length (append_entries lg es) \<le> 21"
    unfolding eq by simp
  have lst: "last (append_entries lg es) = last es" if "es \<noteq> []"
  proof -
    have "length (lg @ es) - 21 < length (lg @ es)"
      using that by (cases es) auto
    then have "last (drop (length (lg @ es) - 21) (lg @ es)) = last (lg @ es)"
      by (rule last_drop)
    with that show ?thesis unfolding eq by simp
  qed
  from eq len lst show ?thesis by blast
qed

theorem event_log_bounded_witness:
  "length initial_log \<le> 21
   \<and> length (append_entries initial_log (replicate 30 (entry warn ''w'') @ [entry info ''a''])) \<le> 21
   \<and> last (append_entries initial_log (replicate 30 (entry warn ''w'') @ [entry info ''a'']))
       = entry info ''a''"
  using event_log_bounded [of initial_log "replicate 30 (entry warn ''w'') @ [entry info ''a'']"]
  by (simp add: initial_log_def)

subsection \<open>Drives\<close>

lemma cycle_drives:
  "runSimulationCycle s rnd = Inr (s', es) \<Longrightarrow> drives_ok s \<Longrightarrow> drives_ok s'"
  unfolding runSimulationCycle_def drives_ok_def Let_def
  by (auto split: list.splits option.splits if_splits)

lemma reachable_drives_ok: "reachable s \<Longrightarrow> drives_ok s"
proof (induction rule: reachable.induct)
  case initial
  show ?case by (simp add: drives_ok_def initialSimState_def)
next
  case (cycle s rnd s' es)
  then show ?case by (blast intro: cycle_drives)
qed

text \<open>
  Claim C1. In every state reachable from the initial snapshot by any number of completed
  cycles, with any random values, curiosity, boredom and pain are integers between 0 and
  100.
\<close>

theorem drives_in_range:
  assumes "reachable s"
  shows "0 \<le> curiosity (state s) \<and> curiosity (state s) \<le> 100
       \<and> 0 \<le> boredom (state s) \<and> boredom (state s) \<le> 100
       \<and> 0 \<le> pain (state s) \<and> pain (state s) \<le> 100"
  using reachable_drives_ok [OF assms] by (simp add: drives_ok_def)

theorem drives_in_range_witness:
  "reachable initialSimState
   \<and> 0 \<le> curiosity (state initialSimState) \<and> curiosity (state initialSimState) \<le> 100
   \<and> 0 \<le> boredom (state initialSimState) \<and> boredom (state initialSimState) \<le> 100
   \<and> 0 \<le> pain (state initialSimState) \<and> pain (state initialSimState) \<le> 100"
  using drives_in_range [OF reachable.initial] reachable.initial by simp

subsection \<open>How goal strings are read\<close>

text \<open>
  A goal is a string. The cycle takes its kind from two substring tests, in this order:
  a goal that contains \<open>Deepen understanding\<close> is a DeepenUnderstanding goal, otherwise
  one that contains \<open>Break down\<close> is a BreakDownConcept goal, and any other goal (the
  ExpandKnowledge goals that the boredom threshold pushes) is handled by neither branch.
  Its concept is the first quoted part, \<open>match_quoted\<close>. The statements below put a goal's
  kind and concept in these terms; the lemmas of this subsection show that the goals the
  templates build from a plain name are read back as intended.
\<close>

lemma lazy_group_plain:
  "plain_name c \<Longrightarrow> lazy_group (c @ apostrophe # rest) = Some c"
  by (induction c) (auto simp: plain_name_def)




lemma starts_with_snoc:
  "starts_with (cs @ [q]) sub \<Longrightarrow> q \<notin> set sub \<Longrightarrow> starts_with cs sub"
  by (induction cs sub rule: starts_with.induct) auto

lemma includes_str_snoc:
  "includes_str (cs @ [q]) sub \<Longrightarrow> q \<notin> set sub \<Longrightarrow> sub \<noteq> [] \<Longrightarrow> includes_str cs sub"
proof (induction cs)
  case Nil
  then show ?case by (cases sub) auto
next
  case (Cons ch cs)
  then show ?case
    using starts_with_snoc [of "ch # cs" q sub] by auto
qed


lemma match_quoted_break_down_goal:
  "plain_name c \<Longrightarrow> match_quoted (break_down_goal c) = Some c"
  using lazy_group_plain [of c "[]"]
  by (simp add: break_down_goal_def apostrophe_def)

lemma match_quoted_expand_goal:
  "plain_name c \<Longrightarrow> match_quoted (expand_goal c) = Some c"
  using lazy_group_plain [of c "[]"]
  by (simp add: expand_goal_def apostrophe_def)


lemma includes_break_down_goal:
  "includes_str (break_down_goal c) ''Break down''"
  by (simp add: break_down_goal_def)

lemma not_includes_quoted:
  assumes "\<not> includes_str c sub" and "apostrophe \<notin> set sub" and "sub \<noteq> []"
  shows "\<not> includes_str (apostrophe # c @ [apostrophe]) sub"
proof -
  have "\<not> includes_str (c @ [apostrophe]) sub"
    using includes_str_snoc [of c apostrophe sub] assms by blast
  moreover have "\<not> starts_with (apostrophe # c @ [apostrophe]) sub"
    using assms(2,3) by (cases sub) auto
  ultimately show ?thesis by simp
qed

lemma break_down_goal_no_deepen:
  assumes "\<not> includes_str c ''Deepen understanding''"
  shows "\<not> includes_str (break_down_goal c) ''Deepen understanding''"
proof -
  have "\<not> includes_str (apostrophe # c @ [apostrophe]) ''Deepen understanding''"
    using assms by (rule not_includes_quoted) (simp_all add: apostrophe_def)
  then show ?thesis
    by (simp add: break_down_goal_def)
qed

lemma expand_goal_unhandled:
  assumes "\<not> includes_str f ''Deepen understanding''"
    and "\<not> includes_str f ''Break down''"
  shows "\<not> includes_str (expand_goal f) ''Deepen understanding''
       \<and> \<not> includes_str (expand_goal f) ''Break down''"
proof -
  have "\<not> includes_str (apostrophe # f @ [apostrophe]) ''Deepen understanding''"
    using assms(1) by (rule not_includes_quoted) (simp_all add: apostrophe_def)
  moreover have "\<not> includes_str (apostrophe # f @ [apostrophe]) ''Break down''"
    using assms(2) by (rule not_includes_quoted) (simp_all add: apostrophe_def)
  ultimately show ?thesis
    by (simp add: expand_goal_def)
qed

text \<open>A random value in \<open>[0, 1)\<close> always picks one of the neighbours.\<close>

lemma pick_neighbor_in_range:
  assumes "0 \<le> rnd" and "rnd < 1" and "ns \<noteq> []"
  shows "\<exists>n \<in> set ns. pick_neighbor ns rnd = Some n"
proof -
  let ?k = "\<lfloor>rnd * of_nat (length ns)\<rfloor>"
  have pos: "(0::rat) < of_nat (length ns)"
    using assms(3) by simp
  have "0 \<le> rnd * of_nat (length ns)"
    using assms(1) by simp
  then have lo: "0 \<le> ?k" by simp
  have "rnd * of_nat (length ns) < of_nat (length ns)"
    using assms(2) pos by simp
  then have hi: "?k < int (length ns)"
    by (simp add: floor_less_iff)
  from lo hi have "nat ?k < length ns" by linarith
  then have "ns ! nat ?k \<in> set ns" by simp
  with lo hi show ?thesis
    by (simp add: pick_neighbor_def Let_def)
qed

subsection \<open>The branches of a cycle\<close>




lemma cycle_break_down:
  assumes "active (goals s) = g # rest"
    and "\<not> includes_str g ''Deepen understanding''"
    and "includes_str g ''Break down''"
    and "match_quoted g = Some c"
    and "nodes (memory s) c = Some n"
  shows "runSimulationCycle s rnd =
     Inr (s\<lparr> focus := Some c,
              memory := \<lparr>
                nodes = (nodes (memory s))
                          (c @ ''-B'' \<mapsto> \<lparr> x = x n - 10, y = y n + 25, understood = False \<rparr>,
                           c @ ''-A'' \<mapsto> \<lparr> x = x n + 5, y = y n + 25, understood = False \<rparr>),
                links = links (memory s) @
                          [\<lparr> source = c, target = c @ ''-B'' \<rparr>,
                           \<lparr> source = c, target = c @ ''-A'' \<rparr>] \<rparr>,
              goals := (goals s)\<lparr>
                active := deepen_goal (c @ ''-A'') # deepen_goal (c @ ''-B'') # rest \<rparr> \<rparr>,
          [entry info (focus_message c), entry success (broke_down_message c),
           entry info (sub_concepts_message c)])"
  using assms unfolding runSimulationCycle_def Let_def by (simp add: sub_node_def)

lemma cycle_unhandled:
  assumes "active (goals s) = g # rest"
    and "\<not> includes_str g ''Deepen understanding''"
    and "\<not> includes_str g ''Break down''"
    and "match_quoted g = Some c"
  shows "runSimulationCycle s rnd = Inr (s\<lparr> focus := Some c \<rparr>, [entry info (focus_message c)])"
  using assms unfolding runSimulationCycle_def Let_def by simp




lemma trace_cycles_fixed:
  assumes "\<And>rnd. runSimulationCycle t rnd = Inr (t, es)"
  shows "trace_cycles t rnds = Inr (map (\<lambda>rnd. (t, es)) rnds)"
  by (induction rnds) (simp_all add: assms)

lemma run_cycles_reachable:
  "reachable s \<Longrightarrow> run_cycles s rnds = Inr s' \<Longrightarrow> reachable s'"
proof (induction rnds arbitrary: s)
  case Nil
  then show ?case by simp
next
  case (Cons rnd rnds)
  then show ?case
    by (auto split: sum.splits intro: reachable.cycle)
qed

subsection \<open>Repeated failure and the strategy shift\<close>



subsection \<open>A successful attempt\<close>



subsection \<open>A goal that no branch handles\<close>

text \<open>
  Claim C10. When the head of the active queue is an ExpandKnowledge goal (a goal that
  neither branch of the cycle handles) whose concept \<open>c\<close> can be read, a cycle returns
  the state with focus set to \<open>c\<close> and nothing else changed (drives, both goal lists and
  the memory graph are the same), and logs the focus entry only. The goal stays at the
  head, so any number of further cycles, with any random values, return that same state
  and that same entry.
\<close>

theorem expand_goal_stalls:
  assumes "active (goals s) = g # rest"
    and "\<not> includes_str g ''Deepen understanding''"
    and "\<not> includes_str g ''Break down''"
    and "match_quoted g = Some c"
  shows "runSimulationCycle s rnd = Inr (s\<lparr> focus := Some c \<rparr>, [entry info (focus_message c)])
       \<and> trace_cycles s rnds =
           Inr (map (\<lambda>rnd. (s\<lparr> focus := Some c \<rparr>, [entry info (focus_message c)])) rnds)"
proof -
  let ?t = "s\<lparr> focus := Some c \<rparr>"
  let ?es = "[entry info (focus_message c)]"
  have first: "runSimulationCycle s r = Inr (?t, ?es)" for r
    using assms by (rule cycle_unhandled)
  have again: "runSimulationCycle ?t r = Inr (?t, ?es)" for r
    using cycle_unhandled [of ?t g rest c r] assms by simp
  have "trace_cycles s rnds = Inr (map (\<lambda>rnd. (?t, ?es)) rnds)"
  proof (cases rnds)
    case Nil
    then show ?thesis by simp
  next
    case (Cons r rs)
    then show ?thesis
      using trace_cycles_fixed [of ?t ?es rs, OF again] by (simp add: first)
  qed
  with first show ?thesis by (intro conjI)
qed

theorem expand_goal_stalls_witness:
  "active (goals stalled_state) = expand_goal ''belief system'' # []
   \<and> \<not> includes_str (expand_goal ''belief system'') ''Deepen understanding''
   \<and> \<not> includes_str (expand_goal ''belief system'') ''Break down''
   \<and> match_quoted (expand_goal ''belief system'') = Some ''belief system''
   \<and> runSimulationCycle stalled_state (1 / 2) =
        Inr (stalled_state, [entry info (focus_message ''belief system'')])
   \<and> trace_cycles stalled_state [0, 1 / 2, 9 / 10] =
        Inr (replicate 3 (stalled_state, [entry info (focus_message ''belief system'')]))"
proof -
  have plain: "plain_name ''belief system''"
    by (simp add: plain_name_def apostrophe_def line_terminator_def)
  have h1: "active (goals stalled_state) = expand_goal ''belief system'' # []"
    by (simp add: stalled_state_def)
  have h23: "\<not> includes_str (expand_goal ''belief system'') ''Deepen understanding''
           \<and> \<not> includes_str (expand_goal ''belief system'') ''Break down''"
    by (rule expand_goal_unhandled) simp_all
  note h2 = h23 [THEN conjunct1]
  note h3 = h23 [THEN conjunct2]
  have h4: "match_quoted (expand_goal ''belief system'') = Some ''belief system''"
    using plain by (rule match_quoted_expand_goal)
  have same: "stalled_state\<lparr> focus := Some ''belief system'' \<rparr> = stalled_state"
    by (simp add: stalled_state_def initialSimState_def)
  have one: "runSimulationCycle stalled_state (1 / 2) =
        Inr (stalled_state, [entry info (focus_message ''belief system'')])"
    using expand_goal_stalls [OF h1 h2 h3 h4, of "1 / 2" "[]", THEN conjunct1]
    by (simp only: same)
  have three: "trace_cycles stalled_state [0, 1 / 2, 9 / 10] =
        Inr (replicate 3 (stalled_state, [entry info (focus_message ''belief system'')]))"
    using expand_goal_stalls [OF h1 h2 h3 h4, of 0 "[0, 1 / 2, 9 / 10]", THEN conjunct2]
    by (simp only: same) (simp add: numeral_3_eq_3)
  show ?thesis
    by (intro conjI h1 h2 h3 h4 one three)
qed

subsection \<open>Idle cycles and the boredom threshold\<close>



subsection \<open>Cycles that throw\<close>

lemma cycle_error_iff:
  "runSimulationCycle s rnd = Inl e \<longleftrightarrow>
     (\<exists>g rest. active (goals s) = g # rest \<and>
        (match_quoted g = None
         \<or> (\<exists>c. match_quoted g = Some c \<and> nodes (memory s) c = None \<and>
               (if includes_str g ''Deepen understanding''
                then \<not> (rnd < 1 / 4 \<or> pain (state s) > 50)
                else includes_str g ''Break down''))))"
  unfolding runSimulationCycle_def Let_def
  by (cases e) (auto split: list.splits option.splits if_splits)



subsection \<open>Breaking a concept down\<close>

lemma revisited_state_cycle:
  "\<exists>s' es. runSimulationCycle revisited_state 0 = Inr (s', es)
     \<and> nodes (memory revisited_state) ''belief system-A''
         = Some \<lparr> x = 55, y = 45, understood = True \<rparr>
     \<and> nodes (memory s') ''belief system-A''
         = Some \<lparr> x = 55, y = 45, understood = False \<rparr>
     \<and> dom (nodes (memory s')) - dom (nodes (memory revisited_state)) = {}"
proof -
  have plain: "plain_name ''belief system''"
    by (simp add: plain_name_def apostrophe_def line_terminator_def)
  have 1: "active (goals revisited_state) = break_down_goal ''belief system'' # []"
    by (simp add: revisited_state_def escalated_state_def)
  have 2: "\<not> includes_str (break_down_goal ''belief system'') ''Deepen understanding''"
    by (rule break_down_goal_no_deepen) simp
  have 3: "includes_str (break_down_goal ''belief system'') ''Break down''"
    by (rule includes_break_down_goal)
  have 4: "match_quoted (break_down_goal ''belief system'') = Some ''belief system''"
    using plain by (rule match_quoted_break_down_goal)
  have 5: "nodes (memory revisited_state) ''belief system''
             = Some \<lparr> x = 50, y = 20, understood = False \<rparr>"
    by (simp add: revisited_state_def escalated_state_def initialSimState_def)
  have 6: "nodes (memory revisited_state) ''belief system-A''
         = Some \<lparr> x = 55, y = 45, understood = True \<rparr>"
    by (simp add: revisited_state_def escalated_state_def initialSimState_def)
  have 7: "nodes (memory revisited_state) ''belief system-B'' \<noteq> None"
    by (simp add: revisited_state_def escalated_state_def initialSimState_def)
  show ?thesis
    using 6 7 by (auto simp: cycle_break_down [OF 1 2 3 4 5])
qed




subsection \<open>Node positions\<close>

lemma cycle_nodes:
  assumes "runSimulationCycle s rnd = Inr (s', es)"
    and "nodes (memory s') k = Some n"
  shows "(\<exists>m. nodes (memory s) k = Some m \<and> x n = x m \<and> y n = y m)
       \<or> (\<exists>c p. nodes (memory s) c = Some p \<and> (n = sub_node p 0 \<or> n = sub_node p 1))"
proof (cases "active (goals s)")
  case Nil
  then show ?thesis
    using assms unfolding runSimulationCycle_def Let_def
    by (auto split: if_splits)
next
  case (Cons g rest)
  then obtain c where c: "match_quoted g = Some c"
    using assms(1) unfolding runSimulationCycle_def Let_def
    by (auto split: option.splits)
  show ?thesis
  proof (cases "includes_str g ''Deepen understanding''")
    case True
    then show ?thesis
      using assms Cons c unfolding runSimulationCycle_def Let_def
      by (auto split: if_splits option.splits)
  next
    case False
    show ?thesis
    proof (cases "includes_str g ''Break down''")
      case True
      then obtain p where p: "nodes (memory s) c = Some p"
        using assms(1) Cons c False unfolding runSimulationCycle_def Let_def
        by (auto split: option.splits)
      have "nodes (memory s') =
             (nodes (memory s))(c @ ''-B'' \<mapsto> sub_node p 0, c @ ''-A'' \<mapsto> sub_node p 1)"
        using assms(1) Cons c False True p unfolding runSimulationCycle_def Let_def
        by auto
      with assms(2) p show ?thesis
        by (auto split: if_splits)
    next
      case neither: False
      then show ?thesis
        using assms Cons c False unfolding runSimulationCycle_def Let_def
        by auto
    qed
  qed
qed

lemma sub_node_placed:
  "placed_ok p \<Longrightarrow> placed_ok (sub_node p 0) \<and> placed_ok (sub_node p 1)"
  by (simp add: placed_ok_def sub_node_def)

lemma cycle_placed:
  assumes "runSimulationCycle s rnd = Inr (s', es)"
    and "\<And>k n. nodes (memory s) k = Some n \<Longrightarrow> placed_ok n"
    and "nodes (memory s') k = Some n"
  shows "placed_ok n"
  using cycle_nodes [OF assms(1) assms(3)] assms(2) sub_node_placed
  by (auto simp: placed_ok_def)

lemma reachable_placed:
  "reachable s \<Longrightarrow> nodes (memory s) k = Some n \<Longrightarrow> placed_ok n"
proof (induction arbitrary: k n rule: reachable.induct)
  case initial
  then show ?case
    by (auto simp: initialSimState_def placed_ok_def split: if_splits)
next
  case (cycle s rnd s' es)
  show ?case
    using cycle.hyps(2) cycle.IH cycle.prems by (rule cycle_placed)
qed

lemma twenty_failures:
  "case run_cycles initialSimState (replicate 20 0) of
     Inr s \<Rightarrow> (case nodes (memory s) ''belief system-A-A-A-A'' of
                  Some n \<Rightarrow> x n = 70 \<and> y n = 120
                | None \<Rightarrow> False)
   | Inl e \<Rightarrow> False"
  by code_simp

text \<open>
  Claim C4, as stated, fails: twenty cycles in which \<open>Math.random()\<close> returns 0 break
  down \<open>belief system\<close> and then, three times, the first sub-concept; the node
  \<open>belief system-A-A-A-A\<close> is created at \<open>(70, 120)\<close>.
\<close>

theorem node_positions_counterexample:
  "\<not> (\<forall>s. reachable s \<longrightarrow>
        (\<forall>k n. nodes (memory s) k = Some n \<longrightarrow>
           0 \<le> x n \<and> x n \<le> 100 \<and> 0 \<le> y n \<and> y n \<le> 100))"
proof
  assume claim: "\<forall>s. reachable s \<longrightarrow>
        (\<forall>k n. nodes (memory s) k = Some n \<longrightarrow>
           0 \<le> x n \<and> x n \<le> 100 \<and> 0 \<le> y n \<and> y n \<le> 100)"
  obtain s n where run: "run_cycles initialSimState (replicate 20 0) = Inr s"
    and node: "nodes (memory s) ''belief system-A-A-A-A'' = Some n" and far: "y n = 120"
    using twenty_failures by (auto split: sum.splits option.splits)
  have "reachable s"
    using reachable.initial run by (rule run_cycles_reachable)
  with claim node have "y n \<le> 100" by blast
  with far show False by simp
qed

text \<open>
  Claim C4, amended. In every reachable state every node has \<open>y\<close> at least 0 (indeed at
  least 20), and has \<open>x\<close> within \<open>[0, 100]\<close> as long as its \<open>y\<close> is at most 100. Nothing
  bounds \<open>y\<close> from above: a sub-concept node lies 25 below its parent.
\<close>

theorem node_positions:
  assumes "reachable s" and "nodes (memory s) k = Some n"
  shows "20 \<le> y n \<and> (y n \<le> 100 \<longrightarrow> 0 \<le> x n \<and> x n \<le> 100)"
  using reachable_placed [OF assms] by (auto simp: placed_ok_def)

theorem node_positions_witness:
  "reachable initialSimState
   \<and> nodes (memory initialSimState) ''delusions'' = Some \<lparr> x = 80, y = 50, understood = False \<rparr>
   \<and> 20 \<le> y \<lparr> x = 80, y = 50, understood = False \<rparr>
   \<and> y \<lparr> x = 80, y = 50, understood = False \<rparr> \<le> 100
   \<and> 0 \<le> x \<lparr> x = 80, y = 50, understood = False \<rparr>
   \<and> x \<lparr> x = 80, y = 50, understood = False \<rparr> \<le> 100"
proof -
  have node: "nodes (memory initialSimState) ''delusions''
                = Some \<lparr> x = 80, y = 50, understood = False \<rparr>"
    by (simp add: initialSimState_def)
  have low: "y \<lparr> x = 80, y = 50, understood = False \<rparr> \<le> 100"
    by simp
  note pos = node_positions [OF reachable.initial node]
  note inside = pos [THEN conjunct2, THEN mp, OF low]
  show ?thesis
    by (intro conjI reachable.initial node pos [THEN conjunct1] low
          inside [THEN conjunct1] inside [THEN conjunct2])
qed

subsection \<open>Focus\<close>





end
